theory Spec2Isabelle
  imports Main "HOL-Library.Sublist"
begin

section \<open>Data model of \<open>mcp-client/client.py\<close>\<close>

text \<open>
  The client bridges a chat-completion API and a tool-hosting process. Everything the
  client receives from a collaborator (tool descriptors, assistant messages, tool results)
  is data of the shapes below; every exception the Python raises is a value of \<open>error\<close>.
\<close>

datatype json =
    JNull
  | JBool bool
  | JNum int
  | JStr string
  | JArr "json list"
  | JObj "(string \<times> json) list"

datatype error =
    ValueError string
  | KeyError string
  | IndexError
  | AttributeError
  | TypeError
  | JSONDecodeError
  | CollaboratorError string

text \<open>
  A tool descriptor as \<open>list_tools\<close> delivers it: \<open>tool.name\<close>, \<open>tool.description\<close>
  (optional) and \<open>tool.inputSchema\<close>, a dictionary from strings to JSON values.
\<close>

record tool =
  tool_name :: string
  tool_description :: "string option"
  inputSchema :: "(string \<times> json) list"

text \<open>
  One entry of \<open>message.tool_calls\<close>: \<open>.id\<close>, \<open>.function.name\<close> and
  \<open>.function.arguments\<close> (a string holding serialized JSON).
\<close>

record tool_call =
  tc_id :: string
  tc_name :: string
  tc_arguments :: string

text \<open>
  The assistant message \<open>response.choices[0].message\<close>: its text \<open>.content\<close> and its
  \<open>.tool_calls\<close>, both optional.
\<close>

record chat_message =
  msg_content :: "string option"
  tool_calls :: "tool_call list option"

text \<open>The value \<open>call_tool\<close> returns: a sequence of content blocks and an error flag.\<close>

record 'b call_tool_result =
  result_content :: "'b list"
  isError :: bool

text \<open>
  The entries of \<open>self.messages\<close>: the user dictionary, the dumped assistant message, and
  the tool dictionary with \<open>tool_call_id\<close>, \<open>name\<close> and \<open>content\<close>.
\<close>

datatype entry =
    UserEntry string
  | AssistantEntry chat_message
  | ToolEntry string string string

record server_params =
  command :: string
  args :: "string list"
  env :: "(string \<times> string) list option"

text \<open>
  What the client asks of its collaborators, in the order it asks: the model call carries
  the tool schema list and the message history, the tool dispatch its name and arguments.
\<close>

datatype event =
    EvLaunch server_params
  | EvOpenSession
  | EvInitialize
  | EvListTools
  | EvModelCall "json list" "entry list"
  | EvCallTool string json

text \<open>
  The collaborators of one turn. \<open>list_tools\<close>, \<open>chat_create\<close> and \<open>call_tool\<close> are
  the session and the model API, each either raising or answering; \<open>chat_create\<close>
  answers with \<open>response.choices[0].message\<close>. \<open>json_loads\<close>, \<open>py_str\<close> (the
  formatting of the arguments inside the f-string) and \<open>model_dump_json\<close> are the library
  functions the turn calls, taken as parameters.
\<close>

record 'b collaborators =
  list_tools :: "error + tool list"
  chat_create :: "json list \<Rightarrow> entry list \<Rightarrow> error + chat_message"
  call_tool :: "string \<Rightarrow> json \<Rightarrow> error + 'b call_tool_result"
  json_loads :: "string \<Rightarrow> error + json"
  py_str :: "json \<Rightarrow> string"
  model_dump_json :: "'b \<Rightarrow> string"

text \<open>The collaborators of \<open>connect_to_server\<close>.\<close>

record connectors =
  stdio_client :: "server_params \<Rightarrow> error + unit"
  client_session :: "error + unit"
  initialize :: "error + unit"
  first_list_tools :: "error + tool list"

section \<open>The schema adapter\<close>

text \<open>Dictionary subscription \<open>d[k]\<close>: the first binding of the key, or \<open>KeyError\<close>.\<close>

definition subscript :: "(string \<times> json) list \<Rightarrow> string \<Rightarrow> error + json" where
  "subscript d k = (case map_of d k of None \<Rightarrow> Inl (KeyError k) | Some v \<Rightarrow> Inr v)"

definition opt_str :: "string option \<Rightarrow> json" where
  "opt_str s = (case s of None \<Rightarrow> JNull | Some t \<Rightarrow> JStr t)"

text \<open>
  \<open>convert_tool_format\<close>: the dictionary literal is built in source order, so
  \<open>inputSchema["properties"]\<close> is read before \<open>inputSchema["required"]\<close>.
\<close>

definition convert_tool_format :: "tool \<Rightarrow> error + json" where
  "convert_tool_format t =
     (case subscript (inputSchema t) ''properties'' of
        Inl e \<Rightarrow> Inl e
      | Inr props \<Rightarrow>
          (case subscript (inputSchema t) ''required'' of
             Inl e \<Rightarrow> Inl e
           | Inr req \<Rightarrow>
               Inr (JObj
                 [(''type'', JStr ''function''),
                  (''function'', JObj
                     [(''name'', JStr (tool_name t)),
                      (''description'', opt_str (tool_description t)),
                      (''parameters'', JObj
                         [(''type'', JStr ''object''),
                          (''properties'', props),
                          (''required'', req)])])])))"

text \<open>The comprehension \<open>[convert_tool_format(tool) for tool in response.tools]\<close>.\<close>

fun convert_all :: "tool list \<Rightarrow> error + json list" where
  "convert_all [] = Inr []"
| "convert_all (t # ts) =
     (case convert_tool_format t of
        Inl e \<Rightarrow> Inl e
      | Inr c \<Rightarrow> (case convert_all ts of Inl e \<Rightarrow> Inl e | Inr cs \<Rightarrow> Inr (c # cs)))"

text \<open>Reading a field of a nested JSON object by its path of keys.\<close>

fun get_path :: "json \<Rightarrow> string list \<Rightarrow> json option" where
  "get_path j [] = Some j"
| "get_path (JObj kvs) (k # ks) = (case map_of kvs k of None \<Rightarrow> None | Some v \<Rightarrow> get_path v ks)"
| "get_path _ (k # ks) = None"

section \<open>Connecting\<close>

definition endswith :: "string \<Rightarrow> string \<Rightarrow> bool" where
  "endswith s suf = (length suf \<le> length s \<and> drop (length s - length suf) s = suf)"

text \<open>
  \<open>connect_to_server\<close> returns the fresh message log on success, with the requests it
  made of its collaborators.
\<close>

definition connect_to_server :: "connectors \<Rightarrow> string \<Rightarrow> (error + entry list) \<times> event list" where
  "connect_to_server C server_script_path =
     (let is_python = endswith server_script_path ''.py'';
          is_js = endswith server_script_path ''.js''
      in if \<not> (is_python \<or> is_js)
         then (Inl (ValueError ''Server script must be a .py or .js file''), [])
         else
           let server_params = \<lparr>command = (if is_python then ''python'' else ''node''),
                                  args = [server_script_path],
                                  env = None\<rparr>
           in case stdio_client C server_params of
                Inl e \<Rightarrow> (Inl e, [EvLaunch server_params])
              | Inr _ \<Rightarrow>
                  (case client_session C of
                     Inl e \<Rightarrow> (Inl e, [EvLaunch server_params, EvOpenSession])
                   | Inr _ \<Rightarrow>
                       (case initialize C of
                          Inl e \<Rightarrow> (Inl e, [EvLaunch server_params, EvOpenSession, EvInitialize])
                        | Inr _ \<Rightarrow>
                            (case first_list_tools C of
                               Inl e \<Rightarrow>
                                 (Inl e, [EvLaunch server_params, EvOpenSession,
                                          EvInitialize, EvListTools])
                             | Inr _ \<Rightarrow>
                                 (Inr [], [EvLaunch server_params, EvOpenSession,
                                           EvInitialize, EvListTools])))))"

section \<open>One turn\<close>

text \<open>\<open>sep.join(xs)\<close> on strings.\<close>

fun join_str :: "string \<Rightarrow> string list \<Rightarrow> string" where
  "join_str sep [] = []"
| "join_str sep [x] = x"
| "join_str sep (x # y # ys) = x @ sep @ join_str sep (y # ys)"

text \<open>
  \<open>"\n".join(final_text)\<close>: \<open>final_text\<close> holds optional strings, and \<open>join\<close> raises
  \<open>TypeError\<close> when an item is \<open>None\<close>.
\<close>

definition join_lines :: "string option list \<Rightarrow> error + string" where
  "join_lines final_text =
     (if None \<in> set final_text then Inl TypeError
      else Inr (join_str [CHR 0x0A] (map the final_text)))"

definition announcement :: "'b collaborators \<Rightarrow> string \<Rightarrow> json \<Rightarrow> string" where
  "announcement E nm a = ''[Calling tool '' @ nm @ '' with args '' @ py_str E a @ '']''"

text \<open>\<open>json.loads(tool_args) if tool_args else {}\<close>: the empty string is falsy.\<close>

definition parse_args :: "'b collaborators \<Rightarrow> string \<Rightarrow> error + json" where
  "parse_args E raw = (if raw \<noteq> [] then json_loads E raw else Inr (JObj []))"

text \<open>
  The \<open>try\<close> block: a raising \<open>call_tool\<close> leaves \<open>result = None\<close> and no announcement
  in \<open>final_text\<close>.
\<close>

definition dispatch ::
  "'b collaborators \<Rightarrow> string \<Rightarrow> json \<Rightarrow> 'b call_tool_result option \<times> string option list" where
  "dispatch E nm a =
     (case call_tool E nm a of
        Inr r \<Rightarrow> (Some r, [Some (announcement E nm a)])
      | Inl e \<Rightarrow> (None, []))"

text \<open>
  The branch taken when \<open>content.tool_calls is not None\<close>, from the message log and the
  events so far. It returns the outcome of the turn, the message log and the events.
\<close>

definition tool_branch ::
  "'b collaborators \<Rightarrow> json list \<Rightarrow> entry list \<Rightarrow> event list \<Rightarrow> tool_call list
     \<Rightarrow> (error + string) \<times> entry list \<times> event list" where
  "tool_branch E available_tools msgs evs tcs =
     (case tcs of
        [] \<Rightarrow> (Inl IndexError, msgs, evs)
      | tc # _ \<Rightarrow>
          (case parse_args E (tc_arguments tc) of
             Inl e \<Rightarrow> (Inl e, msgs, evs)
           | Inr tool_args \<Rightarrow>
               (let (result, final_text) = dispatch E (tc_name tc) tool_args;
                    evs' = evs @ [EvCallTool (tc_name tc) tool_args]
                in case result of
                     None \<Rightarrow> (Inl AttributeError, msgs, evs')
                   | Some r \<Rightarrow>
                       (case result_content r of
                          [] \<Rightarrow> (Inl IndexError, msgs, evs')
                        | b # _ \<Rightarrow>
                            (let msgs' = msgs @ [ToolEntry (tc_id tc) (tc_name tc)
                                                    (model_dump_json E b)];
                                 evs'' = evs' @ [EvModelCall available_tools msgs']
                             in case chat_create E available_tools msgs' of
                                  Inl e \<Rightarrow> (Inl e, msgs', evs'')
                                | Inr m2 \<Rightarrow>
                                    (join_lines (final_text @ [msg_content m2]),
                                     msgs', evs''))))))"

text \<open>\<open>process_query\<close>, from the message log \<open>self.messages\<close>.\<close>

definition process_query ::
  "'b collaborators \<Rightarrow> entry list \<Rightarrow> string
     \<Rightarrow> (error + string) \<times> entry list \<times> event list" where
  "process_query E messages query =
     (let msgs1 = messages @ [UserEntry query]
      in case list_tools E of
           Inl e \<Rightarrow> (Inl e, msgs1, [EvListTools])
         | Inr tools \<Rightarrow>
             (case convert_all tools of
                Inl e \<Rightarrow> (Inl e, msgs1, [EvListTools])
              | Inr available_tools \<Rightarrow>
                  (let evs = [EvListTools, EvModelCall available_tools msgs1]
                   in case chat_create E available_tools msgs1 of
                        Inl e \<Rightarrow> (Inl e, msgs1, evs)
                      | Inr m \<Rightarrow>
                          (let msgs2 = msgs1 @ [AssistantEntry m]
                           in case tool_calls m of
                                Some tcs \<Rightarrow> tool_branch E available_tools msgs2 evs tcs
                              | None \<Rightarrow> (join_lines [msg_content m], msgs2, evs)))))"

text \<open>The parts of a turn's outcome.\<close>

definition answer :: "(error + string) \<times> entry list \<times> event list \<Rightarrow> error + string" where
  "answer out = fst out"

definition log_after :: "(error + string) \<times> entry list \<times> event list \<Rightarrow> entry list" where
  "log_after out = fst (snd out)"

definition events :: "(error + string) \<times> entry list \<times> event list \<Rightarrow> event list" where
  "events out = snd (snd out)"

fun is_call_tool :: "event \<Rightarrow> bool" where
  "is_call_tool (EvCallTool _ _) = True"
| "is_call_tool _ = False"

fun is_model_call :: "event \<Rightarrow> bool" where
  "is_model_call (EvModelCall _ _) = True"
| "is_model_call _ = False"

text \<open>
  The first assistant message of a turn, when the turn gets as far as receiving one:
  the tool list was fetched and adapted, and the model call answered.
\<close>

definition first_response :: "'b collaborators \<Rightarrow> entry list \<Rightarrow> string \<Rightarrow> chat_message option" where
  "first_response E messages query =
     (case list_tools E of
        Inl e \<Rightarrow> None
      | Inr tools \<Rightarrow>
          (case convert_all tools of
             Inl e \<Rightarrow> None
           | Inr available_tools \<Rightarrow>
               (case chat_create E available_tools (messages @ [UserEntry query]) of
                  Inl e \<Rightarrow> None
                | Inr m \<Rightarrow> Some m)))"

text \<open>
  The turns of \<open>chat_loop\<close>: each query runs \<open>process_query\<close> on the log the previous turn
  left; an exception of a turn is caught and logged, and the loop goes on.
\<close>

fun run_turns :: "entry list \<Rightarrow> ('b collaborators \<times> string) list \<Rightarrow> entry list" where
  "run_turns messages [] = messages"
| "run_turns messages ((E, query) # rest) =
     run_turns (log_after (process_query E messages query)) rest"

text \<open>
  A log is correlated when every tool entry directly follows an assistant entry whose
  first tool-call request has the tool entry's identifier.
\<close>

fun correlated :: "entry option \<Rightarrow> entry list \<Rightarrow> bool" where
  "correlated prev [] = True"
| "correlated prev (ToolEntry i n c # es) =
     ((case prev of
         Some (AssistantEntry m) \<Rightarrow>
           (case tool_calls m of Some (tc # _) \<Rightarrow> tc_id tc = i | _ \<Rightarrow> False)
       | _ \<Rightarrow> False)
      \<and> correlated (Some (ToolEntry i n c)) es)"
| "correlated prev (UserEntry q # es) = correlated (Some (UserEntry q)) es"
| "correlated prev (AssistantEntry m # es) = correlated (Some (AssistantEntry m)) es"

section \<open>Concrete collaborators\<close>

definition list_files_tool :: tool where
  "list_files_tool =
     \<lparr>tool_name = ''list_files'', tool_description = Some ''List files'',
      inputSchema = [(''type'', JStr ''object''),
                     (''properties'', JObj [(''path'', JObj [(''type'', JStr ''string'')])]),
                     (''required'', JArr [JStr ''path''])]\<rparr>"

definition bare_tool :: tool where
  "bare_tool =
     \<lparr>tool_name = ''ping'', tool_description = None,
      inputSchema = [(''type'', JStr ''object''), (''properties'', JObj [])]\<rparr>"

definition ready_connectors :: connectors where
  "ready_connectors =
     \<lparr>stdio_client = (\<lambda>_. Inr ()), client_session = Inr (),
      initialize = Inr (), first_list_tools = Inr [list_files_tool]\<rparr>"

definition list_files_schema :: json where
  "list_files_schema =
     JObj [(''type'', JStr ''function''),
           (''function'', JObj
              [(''name'', JStr ''list_files''),
               (''description'', JStr ''List files''),
               (''parameters'', JObj
                  [(''type'', JStr ''object''),
                   (''properties'', JObj [(''path'', JObj [(''type'', JStr ''string'')])]),
                   (''required'', JArr [JStr ''path''])])])]"

text \<open>
  A stand-in for \<open>json.loads\<close> that knows two documents, and for the formatting of the
  parsed arguments.
\<close>

definition toy_loads :: "string \<Rightarrow> error + json" where
  "toy_loads s = (if s = ''{}'' then Inr (JObj []) else if s = ''null'' then Inr JNull
                  else Inl JSONDecodeError)"

definition toy_str :: "json \<Rightarrow> string" where
  "toy_str j = (case j of JObj [] \<Rightarrow> ''{}'' | _ \<Rightarrow> ''None'')"

text \<open>
  Assistant messages: one that requests \<open>list_files\<close> with a given argument payload
  beside some text, one that only answers.
\<close>

definition request :: "string \<Rightarrow> chat_message" where
  "request raw =
     \<lparr>msg_content = Some ''Let me look.'',
      tool_calls = Some [\<lparr>tc_id = ''call_1'', tc_name = ''list_files'', tc_arguments = raw\<rparr>]\<rparr>"

definition summary :: chat_message where
  "summary = \<lparr>msg_content = Some ''Two files.'', tool_calls = None\<rparr>"

definition plain :: "string \<Rightarrow> chat_message" where
  "plain t = \<lparr>msg_content = Some t, tool_calls = None\<rparr>"

text \<open>
  A model that answers \<open>m1\<close>, and \<open>m2\<close> once the history ends with a tool entry.
\<close>

definition scripted_model ::
  "chat_message \<Rightarrow> chat_message \<Rightarrow> json list \<Rightarrow> entry list \<Rightarrow> error + chat_message" where
  "scripted_model m1 m2 tools ms = (case rev ms of ToolEntry _ _ _ # _ \<Rightarrow> Inr m2 | _ \<Rightarrow> Inr m1)"

definition session ::
  "chat_message \<Rightarrow> chat_message \<Rightarrow> (string \<Rightarrow> json \<Rightarrow> error + string call_tool_result)
     \<Rightarrow> string collaborators" where
  "session m1 m2 ct =
     \<lparr>list_tools = Inr [list_files_tool], chat_create = scripted_model m1 m2, call_tool = ct,
      json_loads = toy_loads, py_str = toy_str, model_dump_json = (\<lambda>b. b)\<rparr>"

text \<open>Tool processes: one that answers with two blocks, one with none, one that raises.\<close>

definition two_files :: "string \<Rightarrow> json \<Rightarrow> error + string call_tool_result" where
  "two_files nm a = Inr \<lparr>result_content = [''a.txt'', ''b.txt''], isError = False\<rparr>"

definition no_blocks :: "string \<Rightarrow> json \<Rightarrow> error + string call_tool_result" where
  "no_blocks nm a = Inr \<lparr>result_content = [], isError = False\<rparr>"

definition broken_pipe :: "string \<Rightarrow> json \<Rightarrow> error + string call_tool_result" where
  "broken_pipe nm a = Inl (CollaboratorError ''broken pipe'')"

text \<open>A session whose model API raises.\<close>

definition offline :: "string collaborators" where
  "offline = (session summary summary two_files)
     \<lparr>chat_create := (\<lambda>tools ms. Inl (CollaboratorError ''rate limit''))\<rparr>"

section \<open>Unfolding a turn\<close>

lemmas toy_defs = session_def scripted_model_def request_def summary_def toy_loads_def toy_str_def
  two_files_def no_blocks_def broken_pipe_def offline_def list_files_tool_def

lemmas turn_defs = process_query_def tool_branch_def dispatch_def parse_args_def join_lines_def
  announcement_def convert_tool_format_def subscript_def opt_str_def answer_def log_after_def
  events_def first_response_def Let_def

lemmas eval_defs = toy_defs turn_defs list_files_schema_def plain_def

lemma first_response_SomeD:
  "first_response E ms q = Some m \<Longrightarrow>
     \<exists>tools av. list_tools E = Inr tools \<and> convert_all tools = Inr av
        \<and> chat_create E av (ms @ [UserEntry q]) = Inr m"
  by (auto simp: first_response_def split: sum.splits)

lemma process_query_responded:
  assumes "list_tools E = Inr tools" "convert_all tools = Inr av"
    "chat_create E av (ms @ [UserEntry q]) = Inr m"
  shows "process_query E ms q =
     (case tool_calls m of
        Some tcs \<Rightarrow> tool_branch E av (ms @ [UserEntry q, AssistantEntry m])
                      [EvListTools, EvModelCall av (ms @ [UserEntry q])] tcs
      | None \<Rightarrow> (join_lines [msg_content m], ms @ [UserEntry q, AssistantEntry m],
                 [EvListTools, EvModelCall av (ms @ [UserEntry q])]))"
  using assms by (simp add: process_query_def Let_def)

lemma process_query_silent:
  "first_response E ms q = None \<Longrightarrow>
     (\<exists>e. answer (process_query E ms q) = Inl e)
     \<and> log_after (process_query E ms q) = ms @ [UserEntry q]
     \<and> filter is_call_tool (events (process_query E ms q)) = []"
  by (auto simp: first_response_def process_query_def Let_def answer_def log_after_def events_def
      split: sum.splits)

lemma process_query_tool_call:
  assumes "first_response E ms q = Some m" and "tool_calls m = Some tcs"
  obtains av where
    "process_query E ms q =
       tool_branch E av (ms @ [UserEntry q, AssistantEntry m])
         [EvListTools, EvModelCall av (ms @ [UserEntry q])] tcs"
proof -
  from assms(1) obtain tools av where
    env: "list_tools E = Inr tools" "convert_all tools = Inr av"
      "chat_create E av (ms @ [UserEntry q]) = Inr m"
    using first_response_SomeD by blast
  from process_query_responded [OF env] assms(2) that show thesis by simp
qed

lemma process_query_no_tool_call:
  assumes "first_response E ms q = Some m" and "tool_calls m = None"
  obtains av where
    "process_query E ms q =
       (join_lines [msg_content m], ms @ [UserEntry q, AssistantEntry m],
        [EvListTools, EvModelCall av (ms @ [UserEntry q])])"
proof -
  from assms(1) obtain tools av where
    env: "list_tools E = Inr tools" "convert_all tools = Inr av"
      "chat_create E av (ms @ [UserEntry q]) = Inr m"
    using first_response_SomeD by blast
  from process_query_responded [OF env] assms(2) that show thesis by simp
qed

lemma tool_branch_empty:
  "tool_branch E av msgs evs [] = (Inl IndexError, msgs, evs)"
  by (simp add: tool_branch_def)

lemma tool_branch_parse_error:
  "parse_args E (tc_arguments tc) = Inl e \<Longrightarrow>
     tool_branch E av msgs evs (tc # rest) = (Inl e, msgs, evs)"
  by (simp add: tool_branch_def)

lemma tool_branch_dispatch_raises:
  "parse_args E (tc_arguments tc) = Inr a \<Longrightarrow> call_tool E (tc_name tc) a = Inl e \<Longrightarrow>
     tool_branch E av msgs evs (tc # rest) =
       (Inl AttributeError, msgs, evs @ [EvCallTool (tc_name tc) a])"
  by (simp add: tool_branch_def dispatch_def)

lemma tool_branch_no_blocks:
  "parse_args E (tc_arguments tc) = Inr a \<Longrightarrow> call_tool E (tc_name tc) a = Inr r \<Longrightarrow>
   result_content r = [] \<Longrightarrow>
     tool_branch E av msgs evs (tc # rest) =
       (Inl IndexError, msgs, evs @ [EvCallTool (tc_name tc) a])"
  by (simp add: tool_branch_def dispatch_def)

lemma tool_branch_dispatched:
  "parse_args E (tc_arguments tc) = Inr a \<Longrightarrow> call_tool E (tc_name tc) a = Inr r \<Longrightarrow>
   result_content r = b # bs \<Longrightarrow>
     tool_branch E av msgs evs (tc # rest) =
       (case chat_create E av
               (msgs @ [ToolEntry (tc_id tc) (tc_name tc) (model_dump_json E b)]) of
          Inl e \<Rightarrow> Inl e
        | Inr m2 \<Rightarrow> join_lines [Some (announcement E (tc_name tc) a), msg_content m2],
        msgs @ [ToolEntry (tc_id tc) (tc_name tc) (model_dump_json E b)],
        evs @ [EvCallTool (tc_name tc) a,
               EvModelCall av (msgs @ [ToolEntry (tc_id tc) (tc_name tc) (model_dump_json E b)])])"
  by (simp add: tool_branch_def dispatch_def Let_def split: sum.splits)

lemma join_lines_one: "join_lines [x] = (case x of None \<Rightarrow> Inl TypeError | Some t \<Rightarrow> Inr t)"
  by (simp add: join_lines_def split: option.splits)

lemma join_lines_two:
  "join_lines [Some s, x] =
     (case x of None \<Rightarrow> Inl TypeError | Some t \<Rightarrow> Inr (s @ [CHR 0x0A] @ t))"
  by (simp add: join_lines_def split: option.splits)

section \<open>The message log over turns\<close>

lemma correlated_append:
  "correlated p (xs @ ys) =
     (correlated p xs \<and> correlated (if xs = [] then p else Some (last xs)) ys)"
  by (induction p xs rule: correlated.induct) auto

lemma turn_shape:
  "(first_response E ms q = None \<and> log_after (process_query E ms q) = ms @ [UserEntry q])
   \<or> (\<exists>m. first_response E ms q = Some m
        \<and> (log_after (process_query E ms q) = ms @ [UserEntry q, AssistantEntry m]
           \<or> (\<exists>tc rest c. tool_calls m = Some (tc # rest)
                \<and> log_after (process_query E ms q) =
                    ms @ [UserEntry q, AssistantEntry m,
                          ToolEntry (tc_id tc) (tc_name tc) c])))"
proof (cases "first_response E ms q")
  case None
  with process_query_silent [OF None] show ?thesis by simp
next
  case (Some m)
  show ?thesis
  proof (cases "tool_calls m")
    case None
    from process_query_no_tool_call [OF Some None] obtain av where
      "process_query E ms q =
         (join_lines [msg_content m], ms @ [UserEntry q, AssistantEntry m],
          [EvListTools, EvModelCall av (ms @ [UserEntry q])])" .
    with Some show ?thesis by (simp add: log_after_def)
  next
    case tcs: (Some tcs)
    from process_query_tool_call [OF Some tcs] obtain av where
      pq: "process_query E ms q =
         tool_branch E av (ms @ [UserEntry q, AssistantEntry m])
           [EvListTools, EvModelCall av (ms @ [UserEntry q])] tcs" .
    show ?thesis
    proof (cases tcs)
      case Nil
      with pq Some show ?thesis by (simp add: tool_branch_empty log_after_def)
    next
      case (Cons tc rest)
      show ?thesis
      proof (cases "parse_args E (tc_arguments tc)")
        case (Inl e)
        from tool_branch_parse_error [OF Inl] pq Cons Some show ?thesis
          by (simp add: log_after_def)
      next
        case a: (Inr a)
        show ?thesis
        proof (cases "call_tool E (tc_name tc) a")
          case (Inl e)
          from tool_branch_dispatch_raises [OF a Inl] pq Cons Some show ?thesis
            by (simp add: log_after_def)
        next
          case r: (Inr r)
          show ?thesis
          proof (cases "result_content r")
            case Nil
            from tool_branch_no_blocks [OF a r Nil] pq Cons Some show ?thesis
              by (simp add: log_after_def)
          next
            case blocks: (Cons b bs)
            from tool_branch_dispatched [OF a r blocks] pq Cons Some tcs show ?thesis
              by (simp add: log_after_def)
          qed
        qed
      qed
    qed
  qed
qed

lemma turn_prefix: "prefix ms (log_after (process_query E ms q))"
  using turn_shape [of E ms q] by auto

lemma turn_growth:
  "length ms + 1 \<le> length (log_after (process_query E ms q))
   \<and> length (log_after (process_query E ms q)) \<le> length ms + 3"
  using turn_shape [of E ms q] by auto

lemma turn_correlated:
  "correlated None ms \<Longrightarrow> correlated None (log_after (process_query E ms q))"
  using turn_shape [of E ms q] by (auto simp: correlated_append)

lemma run_turns_prefix: "prefix ms (run_turns ms turns)"
proof (induction turns arbitrary: ms)
  case Nil
  show ?case by simp
next
  case (Cons t turns)
  obtain E q where t: "t = (E, q)" by (cases t)
  from turn_prefix [of ms E q] Cons.IH [of "log_after (process_query E ms q)"] t
  show ?case by (auto intro: prefix_order.trans)
qed

lemma run_turns_growth:
  "length ms + length turns \<le> length (run_turns ms turns)
   \<and> length (run_turns ms turns) \<le> length ms + 3 * length turns"
proof (induction turns arbitrary: ms)
  case Nil
  show ?case by simp
next
  case (Cons t turns)
  obtain E q where t: "t = (E, q)" by (cases t)
  from turn_growth [of ms E q] Cons.IH [of "log_after (process_query E ms q)"] t
  show ?case by simp
qed

lemma run_turns_correlated:
  "correlated None ms \<Longrightarrow> correlated None (run_turns ms turns)"
proof (induction turns arbitrary: ms)
  case Nil
  then show ?case by simp
next
  case (Cons t turns)
  obtain E q where t: "t = (E, q)" by (cases t)
  from Cons.IH [OF turn_correlated [OF Cons.prems, of E q]] t show ?case by simp
qed

section \<open>A raising tool dispatch\<close>

text \<open>
  C1. The claim asks that a turn whose tool dispatch fails still appends a tool entry, makes
  the second model call and returns an answer. At the input below the first response
  requests \<open>list_files\<close> and \<open>call_tool\<close> raises. The \<open>except\<close> branch leaves
  \<open>result = None\<close>, the tool entry is then built from \<open>result.content[0]\<close>, and the
  turn ends in \<open>AttributeError\<close>: the log holds the user and assistant entries only, the
  one dispatch was made and the model was called once.
\<close>

theorem dispatch_failure_aborts_turn:
  "answer (process_query (session (request ''{}'') summary broken_pipe) [] ''List files'')
     = Inl AttributeError
   \<and> log_after (process_query (session (request ''{}'') summary broken_pipe) [] ''List files'')
     = [UserEntry ''List files'', AssistantEntry (request ''{}'')]
   \<and> filter is_call_tool
       (events (process_query (session (request ''{}'') summary broken_pipe) [] ''List files''))
     = [EvCallTool ''list_files'' (JObj [])]
   \<and> length (filter is_model_call
       (events (process_query (session (request ''{}'') summary broken_pipe) [] ''List files'')))
     = 1"
  by (simp add: eval_defs)

section \<open>A malformed argument payload\<close>

text \<open>
  C2, as amended. When the first response carries a tool-call request whose argument
  payload is non-empty and \<open>json.loads\<close> rejects it, the turn raises that parse error
  before any dispatch: no \<open>call_tool\<close> is made, the log holds the user and assistant
  entries only, and the model was called once. When the payload is the empty string, the
  one dispatch of the turn carries the empty mapping.
\<close>

theorem malformed_payload_raises:
  assumes "first_response E ms q = Some m" and "tool_calls m = Some (tc # rest)"
  shows "(tc_arguments tc \<noteq> [] \<and> json_loads E (tc_arguments tc) = Inl e \<longrightarrow>
            answer (process_query E ms q) = Inl e
          \<and> log_after (process_query E ms q) = ms @ [UserEntry q, AssistantEntry m]
          \<and> filter is_call_tool (events (process_query E ms q)) = []
          \<and> length (filter is_model_call (events (process_query E ms q))) = 1)
       \<and> (tc_arguments tc = [] \<longrightarrow>
            filter is_call_tool (events (process_query E ms q))
              = [EvCallTool (tc_name tc) (JObj [])])"
proof -
  from assms(1) obtain tools av where
    env: "list_tools E = Inr tools" "convert_all tools = Inr av"
      "chat_create E av (ms @ [UserEntry q]) = Inr m"
    using first_response_SomeD by blast
  have pq: "process_query E ms q =
      tool_branch E av (ms @ [UserEntry q, AssistantEntry m])
        [EvListTools, EvModelCall av (ms @ [UserEntry q])] (tc # rest)"
    using process_query_responded [OF env] assms(2) by simp
  have bad: ?thesis if "tc_arguments tc \<noteq> []" "json_loads E (tc_arguments tc) = Inl e"
  proof -
    from that have "parse_args E (tc_arguments tc) = Inl e" by (simp add: parse_args_def)
    from tool_branch_parse_error [OF this] pq that(1) show ?thesis
      by (simp add: answer_def log_after_def events_def)
  qed
  have empty: ?thesis if "tc_arguments tc = []"
  proof -
    from that have pa: "parse_args E (tc_arguments tc) = Inr (JObj [])"
      by (simp add: parse_args_def)
    show ?thesis
    proof (cases "call_tool E (tc_name tc) (JObj [])")
      case (Inl x)
      from tool_branch_dispatch_raises [OF pa Inl] pq that show ?thesis
        by (simp add: events_def)
    next
      case (Inr r)
      show ?thesis
      proof (cases "result_content r")
        case Nil
        from tool_branch_no_blocks [OF pa Inr Nil] pq that show ?thesis
          by (simp add: events_def)
      next
        case (Cons b bs)
        from tool_branch_dispatched [OF pa Inr Cons] pq that show ?thesis
          by (simp add: events_def)
      qed
    qed
  qed
  from bad empty show ?thesis by blast
qed

theorem malformed_payload_raises_witness:
  "answer (process_query (session (request ''{path'') summary two_files) [] ''List files'')
     = Inl JSONDecodeError
   \<and> filter is_call_tool
       (events (process_query (session (request ''{path'') summary two_files) [] ''List files''))
     = []
   \<and> filter is_call_tool
       (events (process_query (session (request []) summary two_files) [] ''List files''))
     = [EvCallTool ''list_files'' (JObj [])]"
  using malformed_payload_raises
      [of "session (request ''{path'') summary two_files" "[]" "''List files''"
          "request ''{path''" "\<lparr>tc_id = ''call_1'', tc_name = ''list_files'', tc_arguments = ''{path''\<rparr>"
          "[]" JSONDecodeError]
    malformed_payload_raises
      [of "session (request []) summary two_files" "[]" "''List files''"
          "request []" "\<lparr>tc_id = ''call_1'', tc_name = ''list_files'', tc_arguments = []\<rparr>"
          "[]" JSONDecodeError]
  by (simp add: eval_defs)

text \<open>
  C2 as stated fails: with the payload \<open>{path\<close> the turn does not go on with an absent
  result, it raises the parse error and appends no tool entry.
\<close>

theorem malformed_payload_counterexample:
  "answer (process_query (session (request ''{path'') summary two_files) [] ''List files'')
     = Inl JSONDecodeError
   \<and> log_after (process_query (session (request ''{path'') summary two_files) [] ''List files'')
     = [UserEntry ''List files'', AssistantEntry (request ''{path'')]"
  by (simp add: eval_defs)

section \<open>One dispatch and one second model call\<close>

text \<open>
  C3, as amended. When the first response carries at least one tool-call request and the
  argument payload of the first request is empty or parses, the turn makes exactly one
  \<open>call_tool\<close>, for the first request with its parsed arguments, whatever further
  requests the response holds. No turn of this kind calls the model more than twice, and
  when the dispatch returns a result with at least one content block the model is called
  exactly twice, whatever the second response requests.
\<close>

theorem single_dispatch_per_turn:
  assumes "first_response E ms q = Some m" and "tool_calls m = Some (tc # rest)"
    and "parse_args E (tc_arguments tc) = Inr a"
  shows "filter is_call_tool (events (process_query E ms q)) = [EvCallTool (tc_name tc) a]
       \<and> length (filter is_model_call (events (process_query E ms q))) \<le> 2
       \<and> (\<forall>r b bs. call_tool E (tc_name tc) a = Inr r \<and> result_content r = b # bs \<longrightarrow>
            length (filter is_model_call (events (process_query E ms q))) = 2)"
proof -
  from process_query_tool_call [OF assms(1,2)] obtain av where
    pq: "process_query E ms q =
       tool_branch E av (ms @ [UserEntry q, AssistantEntry m])
         [EvListTools, EvModelCall av (ms @ [UserEntry q])] (tc # rest)" .
  show ?thesis
  proof (cases "call_tool E (tc_name tc) a")
    case (Inl x)
    from tool_branch_dispatch_raises [OF assms(3) Inl] pq Inl show ?thesis
      by (simp add: events_def)
  next
    case (Inr r)
    show ?thesis
    proof (cases "result_content r")
      case Nil
      from tool_branch_no_blocks [OF assms(3) Inr Nil] pq Inr Nil show ?thesis
        by (simp add: events_def)
    next
      case (Cons b bs)
      from tool_branch_dispatched [OF assms(3) Inr Cons] pq show ?thesis
        by (simp add: events_def)
    qed
  qed
qed

theorem single_dispatch_per_turn_witness:
  "filter is_call_tool
       (events (process_query (session (request ''{}'') (request ''{}'') two_files) [] ''List files''))
     = [EvCallTool ''list_files'' (JObj [])]
   \<and> length (filter is_model_call
       (events (process_query (session (request ''{}'') (request ''{}'') two_files) [] ''List files'')))
     = 2"
  using single_dispatch_per_turn
      [of "session (request ''{}'') (request ''{}'') two_files" "[]" "''List files''"
          "request ''{}''" "\<lparr>tc_id = ''call_1'', tc_name = ''list_files'', tc_arguments = ''{}''\<rparr>"
          "[]" "JObj []"]
  by (simp add: eval_defs)

text \<open>
  C3 as stated fails: the first response below carries a tool-call request, and the turn
  makes no \<open>call_tool\<close> and no second model call, the payload being malformed.
\<close>

theorem single_dispatch_counterexample:
  "first_response (session (request ''{path'') summary two_files) [] ''List files''
     = Some (request ''{path'')
   \<and> length (filter is_call_tool
       (events (process_query (session (request ''{path'') summary two_files) [] ''List files'')))
     = 0
   \<and> length (filter is_model_call
       (events (process_query (session (request ''{path'') summary two_files) [] ''List files'')))
     = 1"
  by (simp add: eval_defs)

section \<open>A turn without a tool call\<close>

text \<open>
  C4, as amended. When the first response has no tool-call list, the turn makes no
  \<open>call_tool\<close>, calls the model once, leaves the log with the user and assistant entries
  appended, and, when the assistant message has text content, returns that text.
\<close>

theorem plain_answer_turn:
  assumes "first_response E ms q = Some m" and "tool_calls m = None"
  shows "filter is_call_tool (events (process_query E ms q)) = []
       \<and> length (filter is_model_call (events (process_query E ms q))) = 1
       \<and> log_after (process_query E ms q) = ms @ [UserEntry q, AssistantEntry m]
       \<and> (\<forall>t. msg_content m = Some t \<longrightarrow> answer (process_query E ms q) = Inr t)"
proof -
  from process_query_no_tool_call [OF assms] obtain av where
    "process_query E ms q =
       (join_lines [msg_content m], ms @ [UserEntry q, AssistantEntry m],
        [EvListTools, EvModelCall av (ms @ [UserEntry q])])" .
  then show ?thesis
    by (simp add: events_def answer_def log_after_def join_lines_one)
qed

theorem plain_answer_turn_witness:
  "answer (process_query (session (plain ''4'') summary two_files) [] ''What is 2+2?'') = Inr ''4''
   \<and> log_after (process_query (session (plain ''4'') summary two_files) [] ''What is 2+2?'')
       = [UserEntry ''What is 2+2?'', AssistantEntry (plain ''4'')]
   \<and> filter is_call_tool
       (events (process_query (session (plain ''4'') summary two_files) [] ''What is 2+2?'')) = []
   \<and> length (filter is_model_call
       (events (process_query (session (plain ''4'') summary two_files) [] ''What is 2+2?''))) = 1"
  using plain_answer_turn
      [of "session (plain ''4'') summary two_files" "[]" "''What is 2+2?''" "plain ''4''"]
  by (simp add: eval_defs)

text \<open>
  C4 as stated fails: an assistant message with neither a tool-call list nor text content
  makes \<open>"\n".join\<close> raise \<open>TypeError\<close>, so nothing is returned.
\<close>

theorem plain_answer_counterexample:
  "first_response (session \<lparr>msg_content = None, tool_calls = None\<rparr> summary two_files) [] ''hi''
     = Some \<lparr>msg_content = None, tool_calls = None\<rparr>
   \<and> answer (process_query (session \<lparr>msg_content = None, tool_calls = None\<rparr> summary two_files)
        [] ''hi'') = Inl TypeError"
  by (simp add: eval_defs)

section \<open>The log is append-only and correlated\<close>

text \<open>
  C5, as amended. Over every sequence of turns the log before is a prefix of the log
  after, it grows by at least one and at most three entries per turn, and a correlated log
  stays correlated: every tool entry directly follows an assistant entry whose first
  tool-call request has its identifier. A single turn appends the user entry alone when no
  first response arrives (the tool listing, the adapter or the model call raised), and
  otherwise the user and assistant entries, followed or not by one tool entry that carries
  the identifier and name of the assistant message's first tool-call request.
\<close>

theorem log_append_only:
  "prefix ms (run_turns ms turns)
   \<and> length ms + length turns \<le> length (run_turns ms turns)
   \<and> length (run_turns ms turns) \<le> length ms + 3 * length turns
   \<and> (correlated None ms \<longrightarrow> correlated None (run_turns ms turns))
   \<and> ((first_response E ms q = None \<and> log_after (process_query E ms q) = ms @ [UserEntry q])
      \<or> (\<exists>m. first_response E ms q = Some m
           \<and> (log_after (process_query E ms q) = ms @ [UserEntry q, AssistantEntry m]
              \<or> (\<exists>tc rest c. tool_calls m = Some (tc # rest)
                   \<and> log_after (process_query E ms q) =
                       ms @ [UserEntry q, AssistantEntry m,
                             ToolEntry (tc_id tc) (tc_name tc) c]))))"
  using run_turns_prefix [of ms turns] run_turns_growth [of ms turns]
    run_turns_correlated [of ms turns] turn_shape [of E ms q]
  by blast

theorem log_append_only_witness:
  "correlated None []
   \<and> correlated None
       (run_turns [] [(session (request ''{}'') summary two_files, ''List files''),
                      (session (plain ''4'') summary two_files, ''What is 2+2?'')])
   \<and> length (run_turns [] [(session (request ''{}'') summary two_files, ''List files''),
                           (session (plain ''4'') summary two_files, ''What is 2+2?'')]) = 5"
  using log_append_only
      [of "[]" "[(session (request ''{}'') summary two_files, ''List files''),
                 (session (plain ''4'') summary two_files, ''What is 2+2?'')]"
          "session (request ''{}'') summary two_files" "''List files''"]
  by (simp add: eval_defs)

text \<open>
  C5 as stated fails: a turn whose model call raises grows the log by one entry, not by
  two or three.
\<close>

theorem log_growth_counterexample:
  "run_turns [] [(offline, ''hi'')] = [UserEntry ''hi'']"
  by (simp add: eval_defs)

section \<open>The first response's text is not returned\<close>

text \<open>
  C6. When the first response carries both text and a tool-call list, the turn returns a
  string exactly when the first request's payload parses, the dispatch returns a result
  with a first content block, and the second model call answers with text; the string is
  then the announcement of the tool call, a newline, and the second response's text. The
  text of the first response is no part of it.
\<close>

theorem first_text_discarded:
  assumes "list_tools E = Inr tools" and "convert_all tools = Inr av"
    and "chat_create E av (ms @ [UserEntry q]) = Inr m"
    and "msg_content m = Some t1" and "tool_calls m = Some tcs"
  shows "answer (process_query E ms q) = Inr s \<longleftrightarrow>
     (\<exists>tc rest a r b bs m2 t2.
        tcs = tc # rest \<and> parse_args E (tc_arguments tc) = Inr a
      \<and> call_tool E (tc_name tc) a = Inr r \<and> result_content r = b # bs
      \<and> chat_create E av (ms @ [UserEntry q, AssistantEntry m,
            ToolEntry (tc_id tc) (tc_name tc) (model_dump_json E b)]) = Inr m2
      \<and> msg_content m2 = Some t2
      \<and> s = announcement E (tc_name tc) a @ [CHR 0x0A] @ t2)"
proof -
  have pq: "process_query E ms q =
      tool_branch E av (ms @ [UserEntry q, AssistantEntry m])
        [EvListTools, EvModelCall av (ms @ [UserEntry q])] tcs"
    using process_query_responded [OF assms(1,2,3)] assms(5) by simp
  show ?thesis
  proof (cases tcs)
    case Nil
    with pq show ?thesis by (simp add: tool_branch_empty answer_def)
  next
    case (Cons tc rest)
    show ?thesis
    proof (cases "parse_args E (tc_arguments tc)")
      case (Inl e)
      from tool_branch_parse_error [OF Inl] pq Cons Inl show ?thesis
        by (simp add: answer_def)
    next
      case a: (Inr a)
      show ?thesis
      proof (cases "call_tool E (tc_name tc) a")
        case (Inl e)
        from tool_branch_dispatch_raises [OF a Inl] pq Cons a Inl show ?thesis
          by (simp add: answer_def)
      next
        case r: (Inr r)
        show ?thesis
        proof (cases "result_content r")
          case Nil
          from tool_branch_no_blocks [OF a r Nil] pq Cons a r Nil show ?thesis
            by (simp add: answer_def)
        next
          case blocks: (Cons b bs)
          from tool_branch_dispatched [OF a r blocks] pq Cons a r blocks show ?thesis
            by (auto simp: answer_def join_lines_two split: sum.splits option.splits)
        qed
      qed
    qed
  qed
qed

theorem first_text_discarded_witness:
  "answer (process_query (session (request ''{}'') summary two_files) [] ''List files'')
     = Inr (''[Calling tool list_files with args {}]'' @ [CHR 0x0A] @ ''Two files.'')"
  using first_text_discarded
      [of "session (request ''{}'') summary two_files" "[list_files_tool]" "[list_files_schema]"
          "[]" "''List files''" "request ''{}''" "''Let me look.''"
          "[\<lparr>tc_id = ''call_1'', tc_name = ''list_files'', tc_arguments = ''{}''\<rparr>]"
          "''[Calling tool list_files with args {}]'' @ [CHR 0x0A] @ ''Two files.''"]
  by (simp add: eval_defs)

section \<open>The schema adapter copies the two schema fields\<close>

text \<open>
  C7, as amended. \<open>convert_tool_format\<close> is a function of the descriptor alone. For a
  descriptor whose input schema has the keys \<open>properties\<close> and \<open>required\<close> it produces
  an object whose \<open>function\<close> holds the descriptor's name and description and a
  \<open>parameters\<close> object whose \<open>properties\<close> and \<open>required\<close> are the schema's own
  values, whatever they are. A descriptor whose schema lacks one of the two keys makes the
  adapter raise \<open>KeyError\<close> for the first key missing.
\<close>

theorem convert_tool_format_copies:
  "(map_of (inputSchema t) ''properties'' = Some p
      \<and> map_of (inputSchema t) ''required'' = Some r \<longrightarrow>
      (\<exists>obj. convert_tool_format t = Inr obj
         \<and> get_path obj [''function'', ''name''] = Some (JStr (tool_name t))
         \<and> get_path obj [''function'', ''description''] = Some (opt_str (tool_description t))
         \<and> get_path obj [''function'', ''parameters'', ''properties''] = Some p
         \<and> get_path obj [''function'', ''parameters'', ''required''] = Some r))
   \<and> (map_of (inputSchema t) ''properties'' = None \<longrightarrow>
        convert_tool_format t = Inl (KeyError ''properties''))
   \<and> (map_of (inputSchema t) ''properties'' \<noteq> None
        \<and> map_of (inputSchema t) ''required'' = None \<longrightarrow>
        convert_tool_format t = Inl (KeyError ''required''))"
  by (auto simp: convert_tool_format_def subscript_def)

theorem convert_tool_format_copies_witness:
  "(\<exists>obj. convert_tool_format list_files_tool = Inr obj
      \<and> get_path obj [''function'', ''name''] = Some (JStr ''list_files'')
      \<and> get_path obj [''function'', ''description''] = Some (JStr ''List files'')
      \<and> get_path obj [''function'', ''parameters'', ''properties'']
          = Some (JObj [(''path'', JObj [(''type'', JStr ''string'')])])
      \<and> get_path obj [''function'', ''parameters'', ''required''] = Some (JArr [JStr ''path'']))
   \<and> convert_tool_format (bare_tool\<lparr>inputSchema := []\<rparr>) = Inl (KeyError ''properties'')
   \<and> convert_tool_format bare_tool = Inl (KeyError ''required'')"
  using convert_tool_format_copies
      [of list_files_tool "JObj [(''path'', JObj [(''type'', JStr ''string'')])]"
          "JArr [JStr ''path'']"]
    convert_tool_format_copies [of "bare_tool\<lparr>inputSchema := []\<rparr>"]
    convert_tool_format_copies [of bare_tool]
  by (simp add: list_files_tool_def bare_tool_def opt_str_def)

text \<open>
  C7 as stated fails: a descriptor whose input schema is \<open>{"type": "object",
  "properties": {}}\<close>, with no \<open>required\<close> key, is adapted to no object at all.
\<close>

theorem convert_tool_format_missing_key:
  "convert_tool_format bare_tool = Inl (KeyError ''required'')"
  by (simp add: convert_tool_format_def subscript_def bare_tool_def)

section \<open>The interpreter is chosen by the extension\<close>

text \<open>
  C8. A script path ending in neither \<open>.py\<close> nor \<open>.js\<close> makes \<open>connect_to_server\<close>
  raise \<open>ValueError\<close> with no request made of any collaborator. Otherwise the first
  request is the launch, with \<open>python\<close> for \<open>.py\<close> and \<open>node\<close> for \<open>.js\<close>, the script
  path as the only argument and no environment.
\<close>

theorem connect_to_server_extension:
  "(\<not> endswith p ''.py'' \<and> \<not> endswith p ''.js'' \<longrightarrow>
      connect_to_server C p = (Inl (ValueError ''Server script must be a .py or .js file''), []))
   \<and> (endswith p ''.py'' \<or> endswith p ''.js'' \<longrightarrow>
      take 1 (snd (connect_to_server C p)) =
        [EvLaunch \<lparr>command = (if endswith p ''.py'' then ''python'' else ''node''),
                   args = [p], env = None\<rparr>])"
  by (auto simp: connect_to_server_def Let_def split: sum.splits)

theorem connect_to_server_extension_witness:
  "connect_to_server ready_connectors ''notes.txt'' =
     (Inl (ValueError ''Server script must be a .py or .js file''), [])
   \<and> take 1 (snd (connect_to_server ready_connectors ''srv.js'')) =
        [EvLaunch \<lparr>command = ''node'', args = [''srv.js''], env = None\<rparr>]
   \<and> take 1 (snd (connect_to_server ready_connectors ''srv.py'')) =
        [EvLaunch \<lparr>command = ''python'', args = [''srv.py''], env = None\<rparr>]"
  using connect_to_server_extension [of "''notes.txt''" ready_connectors]
    connect_to_server_extension [of "''srv.js''" ready_connectors]
    connect_to_server_extension [of "''srv.py''" ready_connectors]
  by (simp add: endswith_def)

section \<open>Only the first content block is kept\<close>

text \<open>
  C9. When the dispatch returns a result, the tool entry appended to the log has the
  serialization of the result's first content block as its content, whatever blocks
  follow; when the result has no content block the turn raises \<open>IndexError\<close>, no tool
  entry is appended and no second model call is made.
\<close>

theorem first_block_only:
  assumes "first_response E ms q = Some m" and "tool_calls m = Some (tc # rest)"
    and "parse_args E (tc_arguments tc) = Inr a" and "call_tool E (tc_name tc) a = Inr r"
  shows "(\<forall>b bs. result_content r = b # bs \<longrightarrow>
            log_after (process_query E ms q) =
              ms @ [UserEntry q, AssistantEntry m,
                    ToolEntry (tc_id tc) (tc_name tc) (model_dump_json E b)])
       \<and> (result_content r = [] \<longrightarrow>
            answer (process_query E ms q) = Inl IndexError
          \<and> log_after (process_query E ms q) = ms @ [UserEntry q, AssistantEntry m]
          \<and> length (filter is_model_call (events (process_query E ms q))) = 1)"
proof -
  from process_query_tool_call [OF assms(1,2)] obtain av where
    pq: "process_query E ms q =
       tool_branch E av (ms @ [UserEntry q, AssistantEntry m])
         [EvListTools, EvModelCall av (ms @ [UserEntry q])] (tc # rest)" .
  show ?thesis
  proof (cases "result_content r")
    case Nil
    from tool_branch_no_blocks [OF assms(3,4) Nil] pq Nil show ?thesis
      by (simp add: events_def answer_def log_after_def)
  next
    case (Cons b bs)
    from tool_branch_dispatched [OF assms(3,4) Cons] pq Cons show ?thesis
      by (simp add: log_after_def)
  qed
qed

theorem first_block_only_witness:
  "log_after (process_query (session (request ''{}'') summary two_files) [] ''List files'')
     = [UserEntry ''List files'', AssistantEntry (request ''{}''),
        ToolEntry ''call_1'' ''list_files'' ''a.txt'']
   \<and> answer (process_query (session (request ''{}'') summary no_blocks) [] ''List files'')
     = Inl IndexError
   \<and> log_after (process_query (session (request ''{}'') summary no_blocks) [] ''List files'')
     = [UserEntry ''List files'', AssistantEntry (request ''{}'')]"
  using first_block_only
      [of "session (request ''{}'') summary two_files" "[]" "''List files''" "request ''{}''"
          "\<lparr>tc_id = ''call_1'', tc_name = ''list_files'', tc_arguments = ''{}''\<rparr>" "[]" "JObj []"
          "\<lparr>result_content = [''a.txt'', ''b.txt''], isError = False\<rparr>"]
    first_block_only
      [of "session (request ''{}'') summary no_blocks" "[]" "''List files''" "request ''{}''"
          "\<lparr>tc_id = ''call_1'', tc_name = ''list_files'', tc_arguments = ''{}''\<rparr>" "[]" "JObj []"
          "\<lparr>result_content = [], isError = False\<rparr>"]
  by (simp add: eval_defs)

section \<open>An empty tool-call list\<close>

text \<open>
  C10. Whenever the assistant message's tool-call list is present the turn takes the
  tool-call branch. With the empty list the read of its first element raises
  \<open>IndexError\<close>: nothing is dispatched and the model is called once. A turn with a
  present list that returns an answer therefore has a non-empty list.
\<close>

theorem empty_tool_call_list:
  assumes "first_response E ms q = Some m" and "tool_calls m = Some tcs"
  shows "(\<exists>av. process_query E ms q =
            tool_branch E av (ms @ [UserEntry q, AssistantEntry m])
              [EvListTools, EvModelCall av (ms @ [UserEntry q])] tcs)
       \<and> (tcs = [] \<longrightarrow>
            answer (process_query E ms q) = Inl IndexError
          \<and> log_after (process_query E ms q) = ms @ [UserEntry q, AssistantEntry m]
          \<and> filter is_call_tool (events (process_query E ms q)) = []
          \<and> length (filter is_model_call (events (process_query E ms q))) = 1)
       \<and> (\<forall>s. answer (process_query E ms q) = Inr s \<longrightarrow> tcs \<noteq> [])"
proof -
  from process_query_tool_call [OF assms] obtain av where
    pq: "process_query E ms q =
       tool_branch E av (ms @ [UserEntry q, AssistantEntry m])
         [EvListTools, EvModelCall av (ms @ [UserEntry q])] tcs" .
  have "tcs = [] \<Longrightarrow> process_query E ms q =
      (Inl IndexError, ms @ [UserEntry q, AssistantEntry m],
       [EvListTools, EvModelCall av (ms @ [UserEntry q])])"
    using pq by (simp add: tool_branch_empty)
  with pq show ?thesis
    by (auto simp: events_def answer_def log_after_def)
qed

theorem empty_tool_call_list_witness:
  "answer (process_query
      (session \<lparr>msg_content = Some ''4'', tool_calls = Some []\<rparr> summary two_files) [] ''hi'')
     = Inl IndexError
   \<and> log_after (process_query
      (session \<lparr>msg_content = Some ''4'', tool_calls = Some []\<rparr> summary two_files) [] ''hi'')
     = [UserEntry ''hi'', AssistantEntry \<lparr>msg_content = Some ''4'', tool_calls = Some []\<rparr>]"
  using empty_tool_call_list
      [of "session \<lparr>msg_content = Some ''4'', tool_calls = Some []\<rparr> summary two_files" "[]"
          "''hi''" "\<lparr>msg_content = Some ''4'', tool_calls = Some []\<rparr>" "[]"]
  by (simp add: eval_defs)

end
